theory Spec2Isabelle
  imports Complex_Main
begin

section \<open>Navigation environments of \<^verbatim>\<open>nav_to_center/env.py\<close>\<close>

text \<open>
  The two environments \<^verbatim>\<open>NavToCenter\<close> and \<^verbatim>\<open>NavToEdges\<close> share the lifecycle of
  the abstract class \<^verbatim>\<open>Navigation\<close>. The embedding follows the Python text:

  \<^item> numpy floats are modelled as real numbers, so rounding is not modelled. Where numpy
    would produce \<^verbatim>\<open>inf\<close> or \<^verbatim>\<open>nan\<close> without raising (an array or a numpy scalar divided
    by zero, \<^verbatim>\<open>np.sqrt\<close> of a negative number) the model stops with the marker
    \<open>NonFinite\<close>: the reals have no such value, and HOL's \<open>x / 0 = 0\<close> and
    \<open>sqrt (- x) = - sqrt x\<close> are not what the program computes;
  \<^item> a division of two Python floats or two Python ints by zero raises
    \<^verbatim>\<open>ZeroDivisionError\<close>, and is a branch of the model;
  \<^item> an object is a record of its attributes, every method takes the object and returns
    it together with its result, and an exception leaves the record as it was when the
    exception was raised;
  \<^item> the draws of the random generator in \<^verbatim>\<open>_reset_location\<close> are arguments of the
    model: \<open>u\<close> is the result of \<^verbatim>\<open>rng.normal(0, 1, 2)\<close> and \<open>x\<close> the result of
    \<^verbatim>\<open>rng.uniform(low, high)\<close>.
\<close>

subsection \<open>Vectors and constants\<close>

type_synonym vec2 = "real \<times> real"

definition vadd :: "vec2 \<Rightarrow> vec2 \<Rightarrow> vec2" where
  "vadd a b = (fst a + fst b, snd a + snd b)"

definition vscale :: "real \<Rightarrow> vec2 \<Rightarrow> vec2" where
  "vscale c a = (c * fst a, c * snd a)"

definition vdiv :: "vec2 \<Rightarrow> real \<Rightarrow> vec2" where
  "vdiv a c = (fst a / c, snd a / c)"

definition GOLDEN_RATIO :: real where
  "GOLDEN_RATIO = (sqrt 5 + 1) / 2"

definition GOLDEN_ANGLE :: real where
  "GOLDEN_ANGLE = 2 * pi * (2 - GOLDEN_RATIO)"

text \<open>\<^verbatim>\<open>get_norm(x) = np.sqrt((x ** 2).sum(-1))\<close> on an array of shape \<^verbatim>\<open>(2,)\<close>.\<close>

definition get_norm :: "vec2 \<Rightarrow> real" where
  "get_norm x = sqrt ((fst x)^2 + (snd x)^2)"

text \<open>The same function on one coordinate (\<^verbatim>\<open>get_norm(self.location[0])\<close>).\<close>

definition get_norm0 :: "real \<Rightarrow> real" where
  "get_norm0 x = sqrt (x^2)"

text \<open>\<^verbatim>\<open>int(x)\<close> on a float truncates towards zero.\<close>

definition py_int :: "real \<Rightarrow> int" where
  "py_int x = (if 0 \<le> x then \<lfloor>x\<rfloor> else \<lceil>x\<rceil>)"

subsection \<open>Data\<close>

datatype variant = NavToCenter | NavToEdges

text \<open>
  The exceptions of the module. \<open>InvalidState\<close> is
  \<^verbatim>\<open>Exception("Cannot take action after the agent has stopped")\<close>, \<open>InvalidInitialization\<close>
  is \<^verbatim>\<open>ValueError("Index i=... initializes agent within the goal.")\<close>, \<open>AssertionError\<close> is
  raised by the two assertions of \<^verbatim>\<open>_take_action\<close>, \<open>AttributeError\<close> by
  \<^verbatim>\<open>print(action.shape)\<close> in their handler. \<open>NonFinite\<close> is no exception: it marks a run
  in which numpy goes on with \<^verbatim>\<open>inf\<close> or \<^verbatim>\<open>nan\<close>.
\<close>

datatype error =
    InvalidState
  | InvalidInitialization
  | AssertionError
  | AttributeError
  | ZeroDivisionError
  | NonFinite

text \<open>
  What a caller can pass as an action: a one-dimensional float \<^verbatim>\<open>np.ndarray\<close> (its shape
  is \<^verbatim>\<open>(length,)\<close>), or an object of another type, which has a \<^verbatim>\<open>shape\<close> attribute or has
  none.
\<close>

datatype pyobj = NdArray "real list" | Obj bool

record env =
  variant :: variant
  goal_radius :: real
  world_radius :: real
  world_scale :: real
  is_eval :: bool
  max_step_scale :: real
  sparsity :: real
  biased_reward_shaping :: bool
  max_steps :: int
  num_steps :: int
  stop :: bool
  location :: vec2
  prev_location :: vec2

text \<open>\<^verbatim>\<open>StepResult\<close>: observation, reward, done, and the \<^verbatim>\<open>at_goal\<close> entry of \<^verbatim>\<open>info\<close>.\<close>

type_synonym step_result = "vec2 \<times> real \<times> bool \<times> bool"

subsection \<open>Construction\<close>

text \<open>
  \<^verbatim>\<open>Navigation.__init__\<close>; the subclass has stored \<^verbatim>\<open>world_scale\<close> before it runs. The body
  has no check of its arguments and no \<^verbatim>\<open>raise\<close>.
\<close>

definition Navigation_init ::
  "variant \<Rightarrow> real \<Rightarrow> bool \<Rightarrow> real \<Rightarrow> real \<Rightarrow> real \<Rightarrow> real \<Rightarrow> bool \<Rightarrow> error + env" where
  "Navigation_init v ws ev gr wr mss sp brs =
     Inr \<lparr> variant = v, goal_radius = gr, world_radius = wr, world_scale = ws,
           is_eval = ev, max_step_scale = mss, sparsity = sp,
           biased_reward_shaping = brs,
           max_steps = py_int (ws * mss),
           num_steps = 0, stop = False, location = (0, 0), prev_location = (0, 0) \<rparr>"

definition NavToCenter_init ::
  "bool \<Rightarrow> real \<Rightarrow> real \<Rightarrow> real \<Rightarrow> real \<Rightarrow> bool \<Rightarrow> error + env" where
  "NavToCenter_init ev gr wr mss sp brs = Navigation_init NavToCenter wr ev gr wr mss sp brs"


subsection \<open>Goal test and shaped reward\<close>

definition at_goal :: "env \<Rightarrow> error + bool" where
  "at_goal e =
     (case variant e of
        NavToCenter \<Rightarrow>
          if world_scale e = 0 then Inl ZeroDivisionError
          else Inr (get_norm (location e) \<le> goal_radius e / world_scale e)
      | NavToEdges \<Rightarrow> Inr (get_norm (location e) \<ge> 1))"

definition get_shaped_reward :: "env \<Rightarrow> real" where
  "get_shaped_reward e =
     (case variant e of
        NavToCenter \<Rightarrow>
          (get_norm (prev_location e) - get_norm (location e)) * world_scale e
      | NavToEdges \<Rightarrow>
          (if biased_reward_shaping e
           then get_norm0 (fst (location e)) - get_norm0 (fst (prev_location e))
           else get_norm (location e) - get_norm (prev_location e)) * world_scale e)"

subsection \<open>The step\<close>

text \<open>
  \<^verbatim>\<open>_take_action\<close>. The in-place divisions also change the caller's array; only the
  environment is modelled.
\<close>

definition take_action :: "env \<Rightarrow> pyobj \<Rightarrow> (error + unit) \<times> env" where
  "take_action e action =
     (case action of
        Obj has_shape \<Rightarrow> (Inl (if has_shape then AssertionError else AttributeError), e)
      | NdArray xs \<Rightarrow>
          if length xs \<noteq> 2 then (Inl AssertionError, e)
          else
            let a = (xs ! 0, xs ! 1);
                act_norm = get_norm a;
                a1 = (if act_norm > 1 then vdiv a act_norm else a)
            in if world_scale e = 0 then (Inl NonFinite, e)
               else (Inr (), e\<lparr>location := vadd (location e) (vdiv a1 (world_scale e))\<rparr>))"

definition get_observation :: "env \<Rightarrow> vec2" where
  "get_observation e = location e"

definition get_step_result :: "env \<Rightarrow> (error + step_result) \<times> env" where
  "get_step_result e =
     (let observation = get_observation e in
      case at_goal e of
        Inl err \<Rightarrow> (Inl err, e)
      | Inr ag \<Rightarrow>
          let e1 = (if (num_steps e > 0 \<and> ag) \<or> num_steps e > max_steps e
                    then e\<lparr>stop := True\<rparr> else e)
          in if is_eval e1 then (Inr (observation, if ag then 1 else 0, stop e1, ag), e1)
             else if sparsity e1 = 0 then (Inl NonFinite, e1)
             else (Inr (observation,
                        0 + get_shaped_reward e1 / sparsity e1
                          + (if stop e1 \<and> ag then 1 else 0),
                        stop e1, ag), e1))"

definition step :: "env \<Rightarrow> pyobj \<Rightarrow> (error + step_result) \<times> env" where
  "step e action =
     (if stop e then (Inl InvalidState, e)
      else
        let e1 = e\<lparr>num_steps := num_steps e + 1\<rparr>;
            e2 = e1\<lparr>prev_location := location e1\<rparr>
        in case take_action e2 action of
             (Inl err, e3) \<Rightarrow> (Inl err, e3)
           | (Inr _, e3) \<Rightarrow> get_step_result e3)"

subsection \<open>Reset\<close>



text \<open>
  \<^verbatim>\<open>_reset_location\<close>, with \<open>u\<close> the normal draw and \<open>x\<close> the uniform draw. The two variants
  differ only in the bounds above; both divide by \<^verbatim>\<open>self.world_scale\<close> while computing them.
\<close>

definition reset_location :: "env \<Rightarrow> vec2 \<Rightarrow> real \<Rightarrow> (error + unit) \<times> env" where
  "reset_location e u x =
     (let norm = sqrt ((fst u)^2 + (snd u)^2) in
      if world_scale e = 0 then (Inl ZeroDivisionError, e)
      else if x < 0 \<or> norm = 0 then (Inl NonFinite, e)
      else
        let radius = sqrt x;
            loc = vdiv (vscale radius u) norm
        in (Inr (), e\<lparr>location := loc, prev_location := loc\<rparr>))"

definition reset :: "env \<Rightarrow> vec2 \<Rightarrow> real \<Rightarrow> (error + vec2) \<times> env" where
  "reset e u x =
     (case reset_location e u x of
        (Inl err, e1) \<Rightarrow> (Inl err, e1)
      | (Inr _, e1) \<Rightarrow>
          let e2 = e1\<lparr>stop := False\<rparr>;
              e3 = e2\<lparr>num_steps := 0\<rparr>
          in (Inr (get_observation e3), e3))"

subsection \<open>Deterministic placement\<close>

text \<open>The locals \<^verbatim>\<open>g_rad\<close>, \<^verbatim>\<open>lo\<close>, \<^verbatim>\<open>hi\<close> of \<^verbatim>\<open>NavToCenter.fib_disc_init\<close>.\<close>

definition g_rad :: "env \<Rightarrow> real" where
  "g_rad e = goal_radius e / world_radius e"

definition fib_lo :: "env \<Rightarrow> int \<Rightarrow> int" where
  "fib_lo e n = \<lceil>real_of_int n * (g_rad e)^2\<rceil>"

definition fib_hi :: "env \<Rightarrow> int \<Rightarrow> int" where
  "fib_hi e n = \<lceil>real_of_int n / (1 - (g_rad e)^2)\<rceil>"

text \<open>
  The argument of \<^verbatim>\<open>np.sqrt\<close> in the assignment to \<^verbatim>\<open>r\<close>, for each variant, and the point
  \<^verbatim>\<open>r * np.array([np.cos(theta), np.sin(theta)])\<close>.
\<close>

definition fib_sqrt_arg :: "env \<Rightarrow> int \<Rightarrow> int \<Rightarrow> real" where
  "fib_sqrt_arg e i n =
     (case variant e of
        NavToCenter \<Rightarrow> real_of_int (i + fib_lo e n) / real_of_int (fib_hi e n)
      | NavToEdges \<Rightarrow> real_of_int i / real_of_int n)"

definition fib_r :: "env \<Rightarrow> int \<Rightarrow> int \<Rightarrow> real" where
  "fib_r e i n =
     (case variant e of
        NavToCenter \<Rightarrow> sqrt (fib_sqrt_arg e i n)
      | NavToEdges \<Rightarrow> sqrt (fib_sqrt_arg e i n) * world_radius e / world_scale e)"

definition fib_point :: "env \<Rightarrow> int \<Rightarrow> int \<Rightarrow> vec2" where
  "fib_point e i n =
     (let theta = real_of_int i * GOLDEN_ANGLE
      in vscale (fib_r e i n) (cos theta, sin theta))"

text \<open>
  The exception, if any, that the arithmetic before the goal test raises: the divisions by
  \<^verbatim>\<open>self.world_radius\<close>, by \<^verbatim>\<open>1 - g_rad ** 2\<close> and by \<^verbatim>\<open>hi\<close> in \<^verbatim>\<open>NavToCenter\<close>, the division
  \<^verbatim>\<open>i / n\<close> in \<^verbatim>\<open>NavToEdges\<close>.
\<close>

definition fib_arith_error :: "env \<Rightarrow> int \<Rightarrow> int \<Rightarrow> error option" where
  "fib_arith_error e i n =
     (case variant e of
        NavToCenter \<Rightarrow>
          if world_radius e = 0 then Some ZeroDivisionError
          else if 1 - (g_rad e)^2 = 0 then Some ZeroDivisionError
          else if fib_hi e n = 0 then Some ZeroDivisionError
          else None
      | NavToEdges \<Rightarrow>
          if n = 0 then Some ZeroDivisionError else None)"

text \<open>
  Whether \<^verbatim>\<open>r\<close> is \<^verbatim>\<open>nan\<close> or \<^verbatim>\<open>inf\<close>: \<^verbatim>\<open>np.sqrt\<close> of a negative number in both variants, the
  numpy scalar divided by \<^verbatim>\<open>self.world_scale\<close> in \<^verbatim>\<open>NavToEdges\<close>.
\<close>

definition fib_non_finite :: "env \<Rightarrow> int \<Rightarrow> int \<Rightarrow> bool" where
  "fib_non_finite e i n =
     (fib_sqrt_arg e i n < 0 \<or> (variant e = NavToEdges \<and> world_scale e = 0))"

text \<open>
  \<^verbatim>\<open>fib_disc_init\<close> of both variants: \<^verbatim>\<open>r\<close> is computed, then \<^verbatim>\<open>self._at_goal()\<close> is called, and
  only after it \<^verbatim>\<open>self.location\<close> is assigned.
\<close>

definition fib_disc_init :: "env \<Rightarrow> int \<Rightarrow> int \<Rightarrow> (error + vec2) \<times> env" where
  "fib_disc_init e i n =
     (case fib_arith_error e i n of
        Some err \<Rightarrow> (Inl err, e)
      | None \<Rightarrow>
          (case at_goal e of
             Inl err \<Rightarrow> (Inl err, e)
           | Inr True \<Rightarrow> (Inl InvalidInitialization, e)
           | Inr False \<Rightarrow>
               if fib_non_finite e i n then (Inl NonFinite, e)
               else
                 let e1 = e\<lparr>location := fib_point e i n\<rparr>
                 in (Inr (get_observation e1), e1)))"

subsection \<open>Sequences of calls\<close>






subsection \<open>Well-formed actions and two configurations\<close>

text \<open>An action passes both assertions of \<^verbatim>\<open>_take_action\<close>.\<close>

fun well_formed_action :: "pyobj \<Rightarrow> bool" where
  "well_formed_action (NdArray xs) = (length xs = 2)"
| "well_formed_action (Obj has_shape) = False"

text \<open>
  \<^verbatim>\<open>NavToCenter(is_eval=True, goal_radius=3.0, world_radius=5.0, max_step_scale=1.0,
  sparsity=1.0, biased_reward_shaping=False)\<close> after a \<^verbatim>\<open>reset()\<close> whose draws were
  \<open>u = (1, 0)\<close> and \<open>x = 81/100\<close>.
\<close>

definition center_env :: env where
  "center_env =
     \<lparr> variant = NavToCenter, goal_radius = 3, world_radius = 5, world_scale = 5,
       is_eval = True, max_step_scale = 1, sparsity = 1, biased_reward_shaping = False,
       max_steps = 5, num_steps = 0, stop = False,
       location = (9 / 10, 0), prev_location = (9 / 10, 0) \<rparr>"

text \<open>
  \<^verbatim>\<open>NavToEdges(is_eval=False, goal_radius=1.0, world_radius=10.0, max_step_scale=1.5,
  sparsity=2.0, biased_reward_shaping=False)\<close> as constructed.
\<close>

definition edges_env :: env where
  "edges_env =
     \<lparr> variant = NavToEdges, goal_radius = 1, world_radius = 10, world_scale = 1,
       is_eval = False, max_step_scale = 3 / 2, sparsity = 2, biased_reward_shaping = False,
       max_steps = 1, num_steps = 0, stop = False,
       location = (0, 0), prev_location = (0, 0) \<rparr>"

section \<open>Properties\<close>

subsection \<open>Geometry\<close>

lemma get_norm_polar: "get_norm (vscale r (cos t, sin t)) = \<bar>r\<bar>"
proof -
  have "(r * cos t)^2 + (r * sin t)^2 = r^2 * (cos t)^2 + r^2 * (sin t)^2"
    by (simp add: power_mult_distrib)
  also have "\<dots> = r^2 * ((cos t)^2 + (sin t)^2)"
    by (rule distrib_left [symmetric])
  also have "\<dots> = r^2"
    by simp
  finally show ?thesis
    by (simp add: get_norm_def vscale_def)
qed







lemma sqrt_quarter: "sqrt (1 / 4) = 1 / 2"
  using real_sqrt_abs [of "1 / 2"] by (simp add: power2_eq_square)



lemma sqrt_81_100: "sqrt (81 / 100) = 9 / 10"
  using real_sqrt_abs [of "9 / 10"] by (simp add: power2_eq_square)


subsection \<open>The two configurations\<close>

lemma center_env_sel:
  "variant center_env = NavToCenter" "goal_radius center_env = 3"
  "world_radius center_env = 5" "world_scale center_env = 5"
  "location center_env = (9 / 10, 0)" "prev_location center_env = (9 / 10, 0)"
  "stop center_env = False" "num_steps center_env = 0" "max_steps center_env = 5"
  by (simp_all add: center_env_def)

lemma edges_env_sel:
  "variant edges_env = NavToEdges" "goal_radius edges_env = 1"
  "world_radius edges_env = 10" "world_scale edges_env = 1"
  "location edges_env = (0, 0)" "prev_location edges_env = (0, 0)"
  "stop edges_env = False" "num_steps edges_env = 0" "max_steps edges_env = 1"
  "is_eval edges_env = False" "sparsity edges_env = 2"
  by (simp_all add: edges_env_def)

lemma center_env_reached:
  "\<exists>e0. NavToCenter_init True 3 5 1 1 False = Inr e0
        \<and> reset e0 (1, 0) (81 / 100) = (Inr (9 / 10, 0), center_env)"
  by (simp add: NavToCenter_init_def Navigation_init_def py_int_def reset_def
      reset_location_def Let_def vdiv_def vscale_def sqrt_81_100 get_observation_def
      center_env_def)


lemma center_env_not_at_goal: "at_goal center_env = Inr False"
  by (simp add: at_goal_def center_env_sel get_norm_def)

lemma edges_env_not_at_goal: "at_goal edges_env = Inr False"
  by (simp add: at_goal_def edges_env_sel get_norm_def)

lemma center_env_fib:
  "fib_disc_init center_env 0 2 = (Inr (1 / 2, 0), center_env\<lparr>location := (1 / 2, 0)\<rparr>)"
proof -
  have lo: "fib_lo center_env 2 = 1"
    by (simp add: fib_lo_def g_rad_def center_env_sel power2_eq_square)
  have hi: "fib_hi center_env 2 = 4"
    by (simp add: fib_hi_def g_rad_def center_env_sel power2_eq_square)
  have arg: "fib_sqrt_arg center_env 0 2 = 1 / 4"
    by (simp add: fib_sqrt_arg_def lo hi center_env_sel)
  have pt: "fib_point center_env 0 2 = (1 / 2, 0)"
    by (simp add: fib_point_def fib_r_def arg sqrt_quarter vscale_def center_env_sel)
  have ar: "fib_arith_error center_env 0 2 = None"
    by (simp add: fib_arith_error_def hi center_env_sel g_rad_def power2_eq_square)
  have nf: "\<not> fib_non_finite center_env 0 2"
    by (simp add: fib_non_finite_def arg center_env_sel)
  show ?thesis
    by (simp add: fib_disc_init_def ar center_env_not_at_goal nf pt get_observation_def)
qed

lemma edges_env_fib:
  "fib_disc_init edges_env 1 1 =
     (Inr (fib_point edges_env 1 1), edges_env\<lparr>location := fib_point edges_env 1 1\<rparr>)"
proof -
  have ar: "fib_arith_error edges_env 1 1 = None"
    by (simp add: fib_arith_error_def edges_env_sel)
  have nf: "\<not> fib_non_finite edges_env 1 1"
    by (simp add: fib_non_finite_def fib_sqrt_arg_def edges_env_sel)
  show ?thesis
    by (simp add: fib_disc_init_def ar edges_env_not_at_goal nf get_observation_def)
qed

lemma edges_env_fib_norm: "get_norm (fib_point edges_env 1 1) = 10"
  by (simp add: fib_point_def get_norm_polar fib_r_def fib_sqrt_arg_def edges_env_sel)

lemma edges_env_step:
  "step edges_env (NdArray [1, 0]) =
     (Inr ((1, 0), 3 / 2, True, True),
      edges_env\<lparr>num_steps := 1, stop := True, location := (1, 0)\<rparr>)"
  by (simp add: step_def take_action_def get_step_result_def at_goal_def get_norm_def
      get_shaped_reward_def get_observation_def vadd_def vdiv_def edges_env_def Let_def)

subsection \<open>Stepping\<close>

lemma at_goal_stop_update: "at_goal (e\<lparr>stop := b\<rparr>) = at_goal e"
  by (cases "variant e") (simp_all add: at_goal_def)

lemma list_length_two:
  assumes "length xs = 2"
  shows "\<exists>x y. xs = [x, y]"
proof (cases xs)
  case Nil
  with assms show ?thesis by simp
next
  case (Cons x ys)
  with assms have "length ys = 1" by simp
  then obtain y where "ys = [y]"
    by (cases ys) auto
  with Cons show ?thesis by simp
qed

lemma take_action_Inr:
  assumes "take_action e a = (Inr v, e1)"
  shows "\<exists>x y. a = NdArray [x, y] \<and> world_scale e \<noteq> 0
           \<and> e1 = e\<lparr>location := vadd (location e)
                  (vdiv (if get_norm (x, y) > 1 then vdiv (x, y) (get_norm (x, y)) else (x, y))
                     (world_scale e))\<rparr>"
proof (cases a)
  case (Obj b)
  with assms show ?thesis
    by (simp add: take_action_def)
next
  case (NdArray xs)
  with assms have len: "length xs = 2"
    by (simp add: take_action_def split: if_splits)
  then obtain x y where xs: "xs = [x, y]"
    using list_length_two by blast
  show ?thesis
    using assms NdArray xs
    by (simp add: take_action_def Let_def split: if_splits)
qed

lemma take_action_Inl:
  assumes "take_action e a = (Inl err, e1)"
  shows "e1 = e"
proof (cases a)
  case (Obj b)
  with assms show ?thesis
    by (simp add: take_action_def)
next
  case (NdArray xs)
  show ?thesis
  proof (cases "length xs = 2")
    case False
    with assms NdArray show ?thesis
      by (simp add: take_action_def)
  next
    case True
    with assms NdArray show ?thesis
      by (cases "world_scale e = 0") (simp_all add: take_action_def Let_def)
  qed
qed

lemma take_action_frame:
  assumes "take_action e a = (r, e1)"
  shows "e1 = e\<lparr>location := location e1\<rparr>"
proof (cases r)
  case (Inr v)
  with assms take_action_Inr [of e a v e1] show ?thesis
    by auto
next
  case (Inl err)
  with assms take_action_Inl [of e a err e1] show ?thesis
    by simp
qed

lemma get_step_result_Inr:
  assumes "get_step_result e = (Inr (obs, rew, d, info), e1)"
  shows "at_goal e = Inr info
       \<and> e1 = (if (num_steps e > 0 \<and> info) \<or> num_steps e > max_steps e
               then e\<lparr>stop := True\<rparr> else e)
       \<and> obs = location e \<and> d = stop e1
       \<and> (is_eval e \<longrightarrow> rew = (if info then 1 else 0))
       \<and> (\<not> is_eval e \<longrightarrow> sparsity e \<noteq> 0
            \<and> rew = get_shaped_reward e1 / sparsity e + (if d \<and> info then 1 else 0))"
proof (cases "at_goal e")
  case (Inl err)
  with assms show ?thesis
    by (simp add: get_step_result_def)
next
  case (Inr ag)
  define e' where
    "e' = (if (num_steps e > 0 \<and> ag) \<or> num_steps e > max_steps e
           then e\<lparr>stop := True\<rparr> else e)"
  have keep: "is_eval e' = is_eval e" "sparsity e' = sparsity e"
    by (simp_all add: e'_def)
  have gsr: "get_step_result e =
      (if is_eval e' then (Inr (location e, if ag then 1 else 0, stop e', ag), e')
       else if sparsity e' = 0 then (Inl NonFinite, e')
       else (Inr (location e,
                  0 + get_shaped_reward e' / sparsity e' + (if stop e' \<and> ag then 1 else 0),
                  stop e', ag), e'))"
    unfolding get_step_result_def get_observation_def Let_def e'_def Inr
    by (simp only: sum.case)
  show ?thesis
  proof (cases "is_eval e")
    case True
    with assms gsr keep have
      "obs = location e" "rew = (if ag then 1 else 0)" "d = stop e'" "info = ag" "e1 = e'"
      by auto
    with True Inr show ?thesis
      unfolding e'_def by simp
  next
    case False
    with assms gsr keep have sp: "sparsity e \<noteq> 0"
      by (auto split: if_splits)
    with False assms gsr keep have
      "obs = location e"
      "rew = get_shaped_reward e' / sparsity e + (if stop e' \<and> ag then 1 else 0)"
      "d = stop e'" "info = ag" "e1 = e'"
      by auto
    with False sp Inr show ?thesis
      unfolding e'_def by simp
  qed
qed



lemma step_Inr:
  assumes "step e a = (Inr res, e1)"
  shows "\<not> stop e
       \<and> (\<exists>e3. take_action (e\<lparr>num_steps := num_steps e + 1, prev_location := location e\<rparr>) a
                  = (Inr (), e3)
              \<and> get_step_result e3 = (Inr res, e1))"
proof -
  have ns: "\<not> stop e"
    using assms by (auto simp: step_def)
  let ?e2 = "e\<lparr>num_steps := num_steps e + 1, prev_location := location e\<rparr>"
  obtain r e3 where ta: "take_action ?e2 a = (r, e3)"
    by (cases "take_action ?e2 a")
  show ?thesis
  proof (cases r)
    case (Inl err)
    with assms ns ta show ?thesis
      by (simp add: step_def)
  next
    case (Inr v)
    with assms ns ta show ?thesis
      by (simp add: step_def)
  qed
qed

subsection \<open>Deterministic placement\<close>

lemma fib_disc_init_Inr:
  assumes "fib_disc_init e i n = (Inr obs, e1)"
  shows "fib_arith_error e i n = None \<and> at_goal e = Inr False \<and> \<not> fib_non_finite e i n
       \<and> e1 = e\<lparr>location := fib_point e i n\<rparr> \<and> obs = fib_point e i n"
  using assms
  by (auto simp: fib_disc_init_def get_observation_def Let_def
      split: option.splits sum.splits bool.splits if_splits)


subsection \<open>What the calls leave unchanged\<close>













subsection \<open>Steps that do not reach the goal\<close>





subsection \<open>The evaluation sweep\<close>











section \<open>Claims\<close>

text \<open>
  C1. The claim: \<^verbatim>\<open>fib_disc_init(i, n)\<close> raises \<open>InvalidInitialization\<close> exactly when the point
  computed from \<open>i\<close> and \<open>n\<close> is in the goal region. The method calls \<^verbatim>\<open>self._at_goal()\<close>
  before it assigns the computed point to \<^verbatim>\<open>self.location\<close>, so the test reads the location
  held before the call. In \<open>center_env\<close> (goal radius \<open>3/5\<close> in normalised units, agent at \<open>(9/10, 0)\<close>)
  the call with \<open>i = 0\<close>, \<open>n = 2\<close> computes the point \<open>(1/2, 0)\<close> inside the goal disc, raises
  nothing and leaves the agent there; in \<open>edges_env\<close> the call with \<open>i = 1\<close>, \<open>n = 1\<close> places
  the agent at distance \<open>10\<close>, beyond the goal circle of radius \<open>1\<close>, and raises nothing.
\<close>

theorem fib_disc_init_tests_old_location:
  "at_goal center_env = Inr False
   \<and> fib_disc_init center_env 0 2 = (Inr (1 / 2, 0), center_env\<lparr>location := (1 / 2, 0)\<rparr>)
   \<and> fib_point center_env 0 2 = (1 / 2, 0)
   \<and> at_goal (center_env\<lparr>location := fib_point center_env 0 2\<rparr>) = Inr True
   \<and> at_goal edges_env = Inr False
   \<and> fib_disc_init edges_env 1 1 =
       (Inr (fib_point edges_env 1 1), edges_env\<lparr>location := fib_point edges_env 1 1\<rparr>)
   \<and> at_goal (edges_env\<lparr>location := fib_point edges_env 1 1\<rparr>) = Inr True"
proof -
  have pt: "fib_point center_env 0 2 = (1 / 2, 0)"
    using fib_disc_init_Inr [OF center_env_fib] by simp
  have c: "at_goal (center_env\<lparr>location := (1 / 2, 0)\<rparr>) = Inr True"
    by (simp add: at_goal_def center_env_sel get_norm_def sqrt_quarter power2_eq_square)
  have ed: "at_goal (edges_env\<lparr>location := fib_point edges_env 1 1\<rparr>) = Inr True"
    by (simp add: at_goal_def edges_env_sel edges_env_fib_norm)
  show ?thesis
    using center_env_not_at_goal center_env_fib pt c edges_env_not_at_goal edges_env_fib ed
    by simp
qed








text \<open>
  C5. A step that returns gives, in evaluation mode, reward \<open>1\<close> if the agent is at the goal
  after the action and \<open>0\<close> otherwise; in training mode the shaped reward divided by the
  sparsity, plus \<open>1\<close> exactly when the returned \<open>done\<close> flag and the goal test both hold.
  The \<^verbatim>\<open>at_goal\<close> entry of \<^verbatim>\<open>info\<close> is the goal test of the new location in both modes.
\<close>

theorem step_reward_rule:
  assumes "step e a = (Inr (obs, rew, d, info), e1)"
  shows "at_goal e1 = Inr info \<and> d = stop e1
       \<and> (is_eval e \<longrightarrow> rew = (if info then 1 else 0))
       \<and> (\<not> is_eval e \<longrightarrow> sparsity e \<noteq> 0
            \<and> rew = get_shaped_reward e1 / sparsity e + (if d \<and> info then 1 else 0))"
proof -
  let ?e2 = "e\<lparr>num_steps := num_steps e + 1, prev_location := location e\<rparr>"
  from step_Inr [OF assms] obtain e3 where
    ta: "take_action ?e2 a = (Inr (), e3)" and
    gs: "get_step_result e3 = (Inr (obs, rew, d, info), e1)"
    by blast
  have fr: "e3 = ?e2\<lparr>location := location e3\<rparr>"
    by (rule take_action_frame [OF ta])
  have cfg: "is_eval e3 = is_eval e" "sparsity e3 = sparsity e"
    by (subst fr, simp)+
  note r = get_step_result_Inr [OF gs]
  have ag: "at_goal e1 = Inr info"
    using r by (auto simp: at_goal_stop_update split: if_splits)
  show ?thesis
    using r ag cfg by simp
qed

theorem step_reward_rule_witness:
  "step edges_env (NdArray [1, 0]) =
     (Inr ((1, 0), 3 / 2, True, True),
      edges_env\<lparr>num_steps := 1, stop := True, location := (1, 0)\<rparr>)
   \<and> \<not> is_eval edges_env
   \<and> (3 / 2 :: real) =
       get_shaped_reward (edges_env\<lparr>num_steps := 1, stop := True, location := (1, 0)\<rparr>)
         / sparsity edges_env + 1"
  using edges_env_step step_reward_rule [OF edges_env_step]
  by (simp add: edges_env_sel)








text \<open>
  C9. When \<open>stop\<close> is false and the action is not a two-component array, \<^verbatim>\<open>step\<close> raises
  (\<open>AssertionError\<close>, or \<open>AttributeError\<close> from the handler's \<^verbatim>\<open>print(action.shape)\<close>) after
  it has incremented \<open>num_steps\<close> and overwritten \<open>prev_location\<close> with the location; the
  location, \<open>stop\<close> and everything else are as before.
\<close>

theorem step_malformed_action_not_atomic:
  assumes "\<not> stop e"
    and "\<not> well_formed_action action"
  shows "\<exists>err. (err = AssertionError \<or> err = AttributeError)
           \<and> step e action =
               (Inl err, e\<lparr>num_steps := num_steps e + 1, prev_location := location e\<rparr>)"
proof (cases action)
  case (NdArray xs)
  with assms show ?thesis
    by (simp add: step_def take_action_def)
next
  case (Obj b)
  with assms(1) show ?thesis
    by (simp add: step_def take_action_def)
qed

theorem step_malformed_action_not_atomic_witness:
  "\<not> stop center_env \<and> \<not> well_formed_action (NdArray [1])
   \<and> step center_env (NdArray [1]) =
       (Inl AssertionError, center_env\<lparr>num_steps := 1, prev_location := (9 / 10, 0)\<rparr>)"
proof -
  from step_malformed_action_not_atomic [of center_env "NdArray [1]"]
  obtain err where
    "step center_env (NdArray [1]) =
       (Inl err, center_env\<lparr>num_steps := num_steps center_env + 1,
                             prev_location := location center_env\<rparr>)"
    by (auto simp: center_env_sel)
  moreover have "fst (step center_env (NdArray [1])) = Inl AssertionError"
    by (simp add: step_def take_action_def center_env_sel)
  ultimately show ?thesis
    by (simp add: center_env_sel)
qed

text \<open>
  C10. A \<^verbatim>\<open>fib_disc_init\<close> call that returns, in either variant, changes the \<open>location\<close>
  attribute only and returns the new location; \<open>prev_location\<close>, \<open>num_steps\<close>, \<open>stop\<close>
  and the configuration are untouched, so \<open>prev_location\<close> keeps the old position.
\<close>

theorem fib_disc_init_frame:
  assumes "fib_disc_init e i n = (Inr obs, e1)"
  shows "e1 = e\<lparr>location := obs\<rparr> \<and> obs = fib_point e i n
       \<and> prev_location e1 = prev_location e \<and> num_steps e1 = num_steps e
       \<and> stop e1 = stop e"
  using fib_disc_init_Inr [OF assms] by simp

theorem fib_disc_init_frame_witness:
  "fib_disc_init center_env 0 2 = (Inr (1 / 2, 0), center_env\<lparr>location := (1 / 2, 0)\<rparr>)
   \<and> fib_point center_env 0 2 = (1 / 2, 0)
   \<and> prev_location (center_env\<lparr>location := (1 / 2, 0)\<rparr>) = (9 / 10, 0)
   \<and> prev_location (center_env\<lparr>location := (1 / 2, 0)\<rparr>)
       \<noteq> location (center_env\<lparr>location := (1 / 2, 0)\<rparr>)"
proof -
  have pt: "fib_point center_env 0 2 = (1 / 2, 0)"
    using fib_disc_init_frame [OF center_env_fib] by simp
  show ?thesis
    using center_env_fib pt by (simp add: center_env_sel)
qed

end
